theory Spec2Isabelle
  imports Complex_Main "HOL-Library.Sublist"
begin

section \<open>Python strings\<close>

text \<open>
  A Python \<open>str\<close> is modelled as a \<open>string\<close>: a list of 8-bit characters, read as the
  code points U+0000 to U+00FF. \<open>str.lower\<close> on that range maps A-Z and the Latin-1
  capitals U+00C0 to U+00DE (without the multiplication sign U+00D7) to the character 32
  places further on and leaves every other character alone.
\<close>

definition lower_char :: "char \<Rightarrow> char" where
  "lower_char c =
     (let n = (of_char c :: nat)
      in if (65 \<le> n \<and> n \<le> 90) \<or> (192 \<le> n \<and> n \<le> 222 \<and> n \<noteq> 215)
         then char_of (n + 32) else c)"

definition lower :: "string \<Rightarrow> string" where
  "lower s = map lower_char s"

text \<open>\<open>str.isspace\<close> on one character of that range, as \<open>str.strip\<close> uses it.\<close>

definition is_space :: "char \<Rightarrow> bool" where
  "is_space c =
     (let n = (of_char c :: nat)
      in (9 \<le> n \<and> n \<le> 13) \<or> (28 \<le> n \<and> n \<le> 32) \<or> n = 133 \<or> n = 160)"

definition strip :: "string \<Rightarrow> string" where
  "strip s = rev (dropWhile is_space (rev (dropWhile is_space s)))"

text \<open>\<open>needle in hay\<close> for two strings: \<open>needle\<close> occurs as a contiguous run.\<close>

fun starts_with :: "string \<Rightarrow> string \<Rightarrow> bool" where
  "starts_with [] hay = True"
| "starts_with (c # cs) [] = False"
| "starts_with (c # cs) (h # hs) = (c = h \<and> starts_with cs hs)"

fun contains :: "string \<Rightarrow> string \<Rightarrow> bool" where
  "contains needle [] = (needle = [])"
| "contains needle (h # hs) = (starts_with needle (h # hs) \<or> contains needle hs)"

text \<open>\<open>any(p in text for p in phrases)\<close>\<close>

definition any_in :: "string list \<Rightarrow> string \<Rightarrow> bool" where
  "any_in phrases text = list_ex (\<lambda>p. contains p text) phrases"

text \<open>\<open>sep.join(parts)\<close>\<close>

fun join :: "string \<Rightarrow> string list \<Rightarrow> string" where
  "join sep [] = []"
| "join sep [x] = x"
| "join sep (x # y # ys) = x @ sep @ join sep (y # ys)"

text \<open>\<open>a or b\<close> on an optional string: \<open>None\<close> and the empty string are falsy.\<close>

definition truthy :: "string option \<Rightarrow> bool" where
  "truthy v = (case v of None \<Rightarrow> False | Some s \<Rightarrow> s \<noteq> [])"

definition py_or :: "string option \<Rightarrow> string option \<Rightarrow> string option" where
  "py_or a b = (if truthy a then a else b)"

section \<open>Data model\<close>

text \<open>
  Exceptions are values. \<open>KeyError\<close> is what \<open>generate_system_prompt\<close> raises on a
  scenario without \<open>patient_context\<close> or without a goal; \<open>CompletionError\<close> stands for
  every exception of the chat-completion call (transport failure, timeout, a response
  with no choice).
\<close>

datatype error = KeyError | CompletionError

text \<open>One entry of the chat history: \<open>{"role": ..., "content": ...}\<close>.\<close>

record message =
  role :: string
  content :: string

text \<open>
  A scenario is a dictionary with a name and, normally, a \<open>patient_context\<close>
  dictionary from field names to strings.
\<close>

type_synonym patient_ctx = "string \<rightharpoonup> string"

record scenario =
  name :: string
  patient_context :: "patient_ctx option"

record ConversationManager =
  scenario :: scenario
  conversation_history :: "message list"
  cm_turn_count :: nat

text \<open>
  One transcript entry. The wall-clock \<open>timestamp\<close> field is left out; the confidence is
  present on agent entries only. A confidence is a finite float, modelled by the rational
  it denotes.
\<close>

datatype speaker = Agent | Patient

record turn =
  speaker :: speaker
  turn_text :: string
  turn_no :: nat
  confidence :: "rat option"

record CallSession =
  call_sid :: string
  turn_count :: nat
  transcript :: "turn list"
  scenario_name :: string
  goal_achieved :: bool
  conversation_manager :: "ConversationManager option"

text \<open>
  The collaborators outside the code. \<open>chat_completion msgs\<close> is the call
  \<open>client.chat.completions.create\<close> followed by \<open>response.choices[0].message.content\<close>:
  an exception, or the content, which may be \<open>None\<close>. \<open>prompt_text\<close> is the persona text
  that \<open>generate_system_prompt\<close> assembles from the scenario and the process environment;
  \<open>load_scenario_file\<close> is \<open>get_scenario_by_name\<close> on the scenario files, \<open>None\<close> when
  it raises.
\<close>

record env =
  chat_completion :: "message list \<Rightarrow> error + string option"
  prompt_text :: "scenario \<Rightarrow> string"
  load_scenario_file :: "string \<Rightarrow> scenario option"

text \<open>
  The voice response a webhook returns, as the list of its verbs. The voice of a
  \<open>Say\<close> is always the same and is left out; a \<open>Gather\<close> always posts the next agent
  utterance back to the handler.
\<close>

datatype verb = Pause rat | Say string | Gather | Hangup

type_synonym VoiceResponse = "verb list"

section \<open>phone_system: closing detection and the should-end evaluation\<close>

definition CLOSING_PHRASES :: "string list" where
  "CLOSING_PHRASES =
     [''have a great day'', ''have a good day'', ''thanks for calling'',
      ''thank you for calling'', ''goodbye'', ''bye for now'', ''take care'',
      ''thanks again'', ''thank you again'']"

definition is_closing_utterance :: "string \<Rightarrow> bool" where
  "is_closing_utterance text =
     (if text = [] then False else any_in CLOSING_PHRASES (lower text))"

definition MIN_TURNS_BEFORE_CLOSE :: nat where
  "MIN_TURNS_BEFORE_CLOSE = 3"

definition end_phrases :: "string list" where
  "end_phrases =
     [''goodbye'', ''have a great day'', ''have a good day'', ''take care'',
      ''thanks for calling'']"

definition goal_indicators :: "string list" where
  "goal_indicators =
     [''appointment is scheduled'', ''appointment is confirmed'', ''appointment on'',
      ''see you on'', ''we'' @ [CHR 0x27] @ ''ll send you'', ''confirmation'', ''all set'',
      ''you'' @ [CHR 0x27] @ ''re all set'']"

text \<open>
  \<open>CallSession.should_end_call\<close>: the answer and the session afterwards (the method may
  set \<open>goal_achieved\<close>).
\<close>

definition should_end_call :: "CallSession \<Rightarrow> string \<Rightarrow> bool \<times> CallSession" where
  "should_end_call s agent_text =
     (if turn_count s < MIN_TURNS_BEFORE_CLOSE then (False, s)
      else
        let agent_lower = lower agent_text;
            s1 = (if any_in goal_indicators agent_lower then s\<lparr>goal_achieved := True\<rparr> else s);
            has_ending_phrase = any_in end_phrases agent_lower
        in if has_ending_phrase \<and> (goal_achieved s1 \<or> turn_count s1 \<ge> 20) then (True, s1)
           else if turn_count s1 \<ge> 25 then (True, s1)
           else (False, s1))"

section \<open>llm_client: the guarded completion call\<close>

definition CLARIFICATION :: string where
  "CLARIFICATION = ''I'' @ [CHR 0x27] @ ''m sorry, could you repeat that?''"

text \<open>
  The guard of \<open>generate_patient_reply\<close> on the content of the first choice
  (\<open>None\<close> counts as the empty string): the stripped text, and whether it is refused.
\<close>

definition candidate_text :: "string option \<Rightarrow> string" where
  "candidate_text c = strip (case c of None \<Rightarrow> [] | Some t \<Rightarrow> t)"

definition rejected :: "string \<Rightarrow> bool" where
  "rejected txt =
     (txt = [] \<or> length txt < 8 \<or> lower txt \<in> set [''i need'', ''i would like''])"

definition generate_patient_reply :: "env \<Rightarrow> message list \<Rightarrow> error + string" where
  "generate_patient_reply e messages =
     (case chat_completion e messages of
        Inl err \<Rightarrow> Inl err
      | Inr c \<Rightarrow>
          let txt = candidate_text c
          in if rejected txt then Inr CLARIFICATION else Inr txt)"

section \<open>conversation: the goal evaluator and generate_reply\<close>

definition ConversationManager_init :: "scenario \<Rightarrow> ConversationManager" where
  "ConversationManager_init sc =
     \<lparr>scenario = sc, conversation_history = [], cm_turn_count = 0\<rparr>"

text \<open>\<open>self.scenario.get("patient_context", {})\<close>\<close>

definition context_of :: "ConversationManager \<Rightarrow> patient_ctx" where
  "context_of cm = (case patient_context (scenario cm) of None \<Rightarrow> Map.empty | Some c \<Rightarrow> c)"

text \<open>
  \<open>generate_system_prompt\<close> indexes \<open>self.scenario["patient_context"]\<close> and
  \<open>context['goal']\<close>, so it raises \<open>KeyError\<close> when either is missing; otherwise it returns
  the persona text.
\<close>

definition generate_system_prompt :: "env \<Rightarrow> ConversationManager \<Rightarrow> error + string" where
  "generate_system_prompt e cm =
     (case patient_context (scenario cm) of
        None \<Rightarrow> Inl KeyError
      | Some c \<Rightarrow>
          (case c ''goal'' of
             None \<Rightarrow> Inl KeyError
           | Some g \<Rightarrow> Inr (prompt_text e (scenario cm))))"

text \<open>The dictionary \<open>goal_keywords\<close>, in its insertion order.\<close>

definition goal_keywords :: "(string \<times> string list) list" where
  "goal_keywords =
     [(''appointment'', [''scheduled'', ''appointment is'', ''booked'', ''see you on'', ''confirmation'']),
      (''refill'', [''prescription'', ''refill'', ''pharmacy'', ''sent to'', ''filled'']),
      (''reschedule'', [''rescheduled'', ''moved'', ''changed'', ''new time'']),
      (''cancel'', [''cancelled'', ''canceled'', ''removed from''])]"

text \<open>
  The \<open>for\<close> loop of \<open>_is_goal_completed\<close>: the first category whose name occurs in the
  goal decides, by the \<open>break\<close>.
\<close>

fun goal_loop :: "(string \<times> string list) list \<Rightarrow> string \<Rightarrow> string \<Rightarrow> bool" where
  "goal_loop [] goal txt = False"
| "goal_loop ((goal_type, keywords) # rest) goal txt =
     (if contains goal_type goal
      then (if any_in keywords txt then True else False)
      else goal_loop rest goal txt)"

text \<open>\<open>(context.get("goal") or "").lower()\<close>\<close>

definition goal_of :: "ConversationManager \<Rightarrow> string" where
  "goal_of cm =
     lower (case py_or (context_of cm ''goal'') (Some []) of None \<Rightarrow> [] | Some g \<Rightarrow> g)"

definition is_goal_completed :: "ConversationManager \<Rightarrow> string \<Rightarrow> bool" where
  "is_goal_completed cm conversation_text =
     (let goal = goal_of cm;
          txt = lower conversation_text
      in goal_loop goal_keywords goal txt)"

definition verification_phrases :: "string list" where
  "verification_phrases =
     [''speaking with'', ''date of birth'', ''verify your identity'',
      ''confirm your information'', ''your name'', ''who is this'']"

definition completion_signals :: "string list" where
  "completion_signals = [''is there anything else'', ''anything else i can help'']"

definition CLOSING_ACK :: string where
  "CLOSING_ACK = ''No, that'' @ [CHR 0x27] @ ''s all. Thank you!''"

definition LOW_CONFIDENCE_NOTE :: string where
  "LOW_CONFIDENCE_NOTE =
     [CHR 0x0A] @ ''(Note: Agent'' @ [CHR 0x27] @
     ''s speech may have been unclear - respond appropriately)''"

text \<open>The float \<open>0.7\<close>: the double nearest to seven tenths.\<close>

definition LOW_CONFIDENCE :: rat where
  "LOW_CONFIDENCE = Fract 3152519739159347 4503599627370496"

text \<open>The two replies of the verification phase, from the scenario's \<open>patient_context\<close>.\<close>

definition name_reply :: "patient_ctx \<Rightarrow> string" where
  "name_reply context =
     (let scenario_name =
            (case py_or (context ''name'') (py_or (context ''caller_name'') (Some ''Lucas'')) of
               None \<Rightarrow> ''Lucas'' | Some n \<Rightarrow> n)
      in ''Yes, this is '' @ scenario_name @ ''.'')"

definition dob_reply :: "patient_ctx \<Rightarrow> string" where
  "dob_reply context =
     (let scenario_dob = (case context ''dob'' of None \<Rightarrow> ''02/17/2026'' | Some d \<Rightarrow> d)
      in if scenario_dob = ''1970-01-01'' then ''January 1st, 1970.''
         else ''February 17th, 2026.'')"

text \<open>The two inner tests of the verification phase, on the lower-cased utterance.\<close>

definition asks_name :: "string \<Rightarrow> bool" where
  "asks_name agent_lower =
     (contains ''speaking with'' agent_lower \<or> contains ''your name'' agent_lower \<or>
      contains ''who is this'' agent_lower)"

definition asks_dob :: "string \<Rightarrow> bool" where
  "asks_dob agent_lower =
     (contains ''date of birth'' agent_lower \<or> contains ''dob'' agent_lower)"

text \<open>\<open>full_context\<close>: the history contents joined by spaces, a space, the utterance.\<close>

definition full_context :: "ConversationManager \<Rightarrow> string \<Rightarrow> string" where
  "full_context cm agent_text =
     join '' '' (map content (conversation_history cm)) @ '' '' @ agent_text"

text \<open>The messages sent to the completion call: system prompt, history, latest agent turn.\<close>

definition request_messages :: "string \<Rightarrow> ConversationManager \<Rightarrow> string \<Rightarrow> rat \<Rightarrow> message list" where
  "request_messages prompt cm agent_text conf =
     (let user_content =
            ''Agent: '' @ agent_text @ (if conf < LOW_CONFIDENCE then LOW_CONFIDENCE_NOTE else [])
      in \<lparr>role = ''system'', content = prompt\<rparr> # conversation_history cm @
         [\<lparr>role = ''user'', content = user_content\<rparr>])"

text \<open>What a reply of the completion call appends to the manager.\<close>

definition record_exchange :: "ConversationManager \<Rightarrow> string \<Rightarrow> string \<Rightarrow> ConversationManager" where
  "record_exchange cm agent_text patient_reply =
     cm\<lparr>conversation_history :=
          conversation_history cm @
          [\<lparr>role = ''user'', content = ''Agent: '' @ agent_text\<rparr>,
           \<lparr>role = ''assistant'', content = patient_reply\<rparr>],
        cm_turn_count := cm_turn_count cm + 1\<rparr>"

text \<open>
  \<open>ConversationManager.generate_reply\<close>: the reply and the manager afterwards, or the
  exception that leaves the method (only the \<open>KeyError\<close> of the prompt, which is built
  outside the \<open>try\<close>).
\<close>

definition generate_reply ::
  "env \<Rightarrow> ConversationManager \<Rightarrow> string \<Rightarrow> rat \<Rightarrow> error + (string \<times> ConversationManager)" where
  "generate_reply e cm agent_text conf =
     (let agent_lower = lower agent_text;
          context = context_of cm;
          verification_phase = any_in verification_phrases agent_lower
      in if verification_phase \<and> asks_name agent_lower then Inr (name_reply context, cm)
         else if verification_phase \<and> asks_dob agent_lower then Inr (dob_reply context, cm)
         else if any_in completion_signals agent_lower \<and>
                 is_goal_completed cm (full_context cm agent_text)
         then Inr (CLOSING_ACK, cm)
         else
           (case generate_system_prompt e cm of
              Inl err \<Rightarrow> Inl err
            | Inr prompt \<Rightarrow>
                (case generate_patient_reply e (request_messages prompt cm agent_text conf) of
                   Inr patient_reply \<Rightarrow>
                     Inr (patient_reply, record_exchange cm agent_text patient_reply)
                 | Inl err \<Rightarrow> Inr (CLARIFICATION, cm))))"

section \<open>phone_system: the session and the agent-response handler\<close>

definition CallSession_init :: "env \<Rightarrow> string \<Rightarrow> string \<Rightarrow> CallSession" where
  "CallSession_init e sid scen =
     \<lparr>call_sid = sid, turn_count = 0, transcript = [], scenario_name = scen,
      goal_achieved = False,
      conversation_manager =
        (case load_scenario_file e scen of
           None \<Rightarrow> None
         | Some sc \<Rightarrow> Some (ConversationManager_init sc))\<rparr>"

definition generate_simple_reply_fallback :: "string \<Rightarrow> string" where
  "generate_simple_reply_fallback agent_text =
     (let agent_lower = lower agent_text
      in if contains ''date of birth'' agent_lower \<or> contains ''birthday'' agent_lower
         then ''February 17th, 2026''
         else if contains ''phone'' agent_lower \<or> contains ''callback'' agent_lower \<or>
                 contains ''number'' agent_lower
         then ''Yes, that'' @ [CHR 0x27] @ ''s correct.''
         else if contains ''name'' agent_lower then ''Lucas''
         else ''Okay, thank you.'')"

text \<open>
  \<open>generate_gpt_reply\<close> for a call that is in \<open>active_calls\<close> (the handler has put it
  there): the reply and the session afterwards. An exception of \<open>generate_reply\<close> is
  caught and the rule table answers.
\<close>

definition generate_gpt_reply :: "env \<Rightarrow> CallSession \<Rightarrow> string \<Rightarrow> rat \<Rightarrow> string \<times> CallSession" where
  "generate_gpt_reply e session agent_text conf =
     (case conversation_manager session of
        None \<Rightarrow> (generate_simple_reply_fallback agent_text, session)
      | Some cm \<Rightarrow>
          (case generate_reply e cm agent_text conf of
             Inr (reply, cm') \<Rightarrow> (reply, session\<lparr>conversation_manager := Some cm'\<rparr>)
           | Inl err \<Rightarrow> (generate_simple_reply_fallback agent_text, session)))"

definition GOODBYE :: string where
  "GOODBYE = ''Thank you, goodbye.''"

text \<open>The two transcript appends of the handler, each followed by \<open>turn_count += 1\<close>.\<close>

definition record_agent_turn :: "CallSession \<Rightarrow> string \<Rightarrow> rat \<Rightarrow> CallSession" where
  "record_agent_turn session agent_speech conf =
     session
       \<lparr>transcript := transcript session @
          [\<lparr>speaker = Agent, turn_text = agent_speech, turn_no = turn_count session,
            confidence = Some conf\<rparr>],
        turn_count := turn_count session + 1\<rparr>"

definition record_patient_turn :: "CallSession \<Rightarrow> string \<Rightarrow> CallSession" where
  "record_patient_turn session patient_reply =
     session
       \<lparr>transcript := transcript session @
          [\<lparr>speaker = Patient,
            turn_text = (if patient_reply \<noteq> [] then patient_reply else GOODBYE),
            turn_no = turn_count session, confidence = None\<rparr>],
        turn_count := turn_count session + 1\<rparr>"

text \<open>
  The body of \<open>handle_agent_response\<close> on the session of the call. The closing-utterance
  detector is a parameter, so that a theorem can say when the handler does not consult
  it; the handler itself passes \<open>is_closing_utterance\<close>. Writing the transcript file has
  no effect on the session and is left out.
\<close>

definition handle_session ::
  "(string \<Rightarrow> bool) \<Rightarrow> env \<Rightarrow> CallSession \<Rightarrow> string \<Rightarrow> rat \<Rightarrow> VoiceResponse \<times> CallSession" where
  "handle_session closing e session agent_speech conf =
     (let s1 = record_agent_turn session agent_speech conf
      in if turn_count s1 \<ge> MIN_TURNS_BEFORE_CLOSE \<and> closing agent_speech then ([], s1)
         else
           (case should_end_call s1 agent_speech of
              (True, s2) \<Rightarrow> ([Pause 1, Say GOODBYE, Hangup], s2)
            | (False, s2) \<Rightarrow>
                (case generate_gpt_reply e s2 agent_speech conf of
                   (patient_reply, s3) \<Rightarrow>
                     (if patient_reply \<noteq> []
                      then [Pause (3 / 2), Say patient_reply, Gather]
                      else [Pause 1, Say GOODBYE, Hangup],
                      record_patient_turn s3 patient_reply))))"

text \<open>
  \<open>handle_agent_response\<close> on the registry \<open>active_calls\<close>: a call that is not there
  gets a fresh session of the default scenario first.
\<close>

definition handle_agent_response ::
  "env \<Rightarrow> (string \<rightharpoonup> CallSession) \<Rightarrow> string \<Rightarrow> string \<Rightarrow> rat
     \<Rightarrow> VoiceResponse \<times> (string \<rightharpoonup> CallSession)" where
  "handle_agent_response e active_calls sid agent_speech conf =
     (let session =
            (case active_calls sid of
               None \<Rightarrow> CallSession_init e sid ''appointment_scheduling''
             | Some s \<Rightarrow> s)
      in case handle_session is_closing_utterance e session agent_speech conf of
           (response, session') \<Rightarrow> (response, active_calls(sid \<mapsto> session')))"

text \<open>
  The states of the specification, read off a response: the session stays \<open>ACTIVE\<close> when
  the response gathers the next agent utterance, and is \<open>ENDING\<close> when it does not (an empty
  response or a hang-up ends the call).
\<close>

datatype state = ACTIVE | ENDING

definition state_after :: "VoiceResponse \<Rightarrow> state" where
  "state_after response = (if Gather \<in> set response then ACTIVE else ENDING)"

text \<open>
  A run of the handler over the agent utterances of one call, each with its confidence
  and with the collaborators as they answer at that turn.
\<close>

fun run_session :: "CallSession \<Rightarrow> (env \<times> string \<times> rat) list \<Rightarrow> CallSession" where
  "run_session s [] = s"
| "run_session s ((e, agent_speech, conf) # rest) =
     run_session (snd (handle_session is_closing_utterance e s agent_speech conf)) rest"

section \<open>Concrete inputs\<close>

text \<open>Sessions, scenarios and collaborators on which the theorems below are evaluated.\<close>

definition demo_session :: "nat \<Rightarrow> bool \<Rightarrow> CallSession" where
  "demo_session n g =
     \<lparr>call_sid = ''CA1'', turn_count = n, transcript = [], scenario_name = ''appointment_scheduling'',
      goal_achieved = g, conversation_manager = None\<rparr>"

definition failing_env :: env where
  "failing_env =
     \<lparr>chat_completion = (\<lambda>messages. Inl CompletionError),
      prompt_text = (\<lambda>sc. ''You are Lucas.''),
      load_scenario_file = (\<lambda>n. None)\<rparr>"

definition appointment_scenario :: scenario where
  "appointment_scenario =
     \<lparr>name = ''appointment_scheduling'',
      patient_context = Some [''name'' \<mapsto> ''Lucas'', ''dob'' \<mapsto> ''02/17/2026'',
        ''goal'' \<mapsto> ''Schedule an appointment for a knee check-up'']\<rparr>"

definition steady_env :: env where
  "steady_env =
     \<lparr>chat_completion = (\<lambda>messages. Inr (Some ''I would like a morning slot.'')),
      prompt_text = (\<lambda>sc. ''You are Lucas.''),
      load_scenario_file = (\<lambda>n. Some appointment_scenario)\<rparr>"

definition session_after_24 :: CallSession where
  "session_after_24 =
     run_session (CallSession_init steady_env ''CA1'' ''appointment_scheduling'')
       (replicate 12 (steady_env, ''Which day?'', 1))"

definition cancel_scenario :: scenario where
  "cancel_scenario =
     \<lparr>name = ''cancel_appointment'',
      patient_context = Some [''name'' \<mapsto> ''Lucas'',
        ''goal'' \<mapsto> ''Cancel my appointment on Friday'']\<rparr>"

definition billing_scenario :: scenario where
  "billing_scenario =
     \<lparr>name = ''billing_question'',
      patient_context = Some [''name'' \<mapsto> ''Lucas'', ''goal'' \<mapsto> ''Ask about a bill'']\<rparr>"

definition refill_cancel_scenario :: scenario where
  "refill_cancel_scenario =
     \<lparr>name = ''cancel_refill'',
      patient_context = Some [''name'' \<mapsto> ''Lucas'',
        ''goal'' \<mapsto> ''Cancel my Refill request'']\<rparr>"

definition cm0 :: ConversationManager where
  "cm0 = ConversationManager_init appointment_scenario"

definition short_env :: env where
  "short_env =
     \<lparr>chat_completion = (\<lambda>messages. Inr (Some ''  Okay. '')),
      prompt_text = (\<lambda>sc. ''You are Lucas.''),
      load_scenario_file = (\<lambda>n. Some appointment_scenario)\<rparr>"

definition managed_session :: CallSession where
  "managed_session =
     \<lparr>call_sid = ''CA2'', turn_count = 4, transcript = [],
      scenario_name = ''appointment_scheduling'', goal_achieved = False,
      conversation_manager = Some cm0\<rparr>"

section \<open>Substring search\<close>

lemma starts_with_prefix: "starts_with needle hay = prefix needle hay"
  by (induction needle hay rule: starts_with.induct) simp_all

lemma contains_sublist: "contains needle hay = sublist needle hay"
  by (induction hay) (simp_all add: starts_with_prefix sublist_Cons_right)

section \<open>The should-end evaluation\<close>

lemma should_end_call_early:
  "turn_count s < 3 \<Longrightarrow> should_end_call s agent_text = (False, s)"
  by (simp add: should_end_call_def MIN_TURNS_BEFORE_CLOSE_def)

lemma should_end_call_goal:
  "3 \<le> turn_count s \<Longrightarrow>
   goal_achieved (snd (should_end_call s agent_text)) =
     (goal_achieved s \<or> any_in goal_indicators (lower agent_text))"
  by (simp add: should_end_call_def MIN_TURNS_BEFORE_CLOSE_def Let_def)

lemma should_end_call_turn_count:
  "turn_count (snd (should_end_call s agent_text)) = turn_count s"
  by (simp add: should_end_call_def Let_def)

lemma should_end_call_answer:
  "3 \<le> turn_count s \<Longrightarrow>
   fst (should_end_call s agent_text) =
     ((any_in end_phrases (lower agent_text) \<and>
       (goal_achieved s \<or> any_in goal_indicators (lower agent_text) \<or> 20 \<le> turn_count s)) \<or>
      25 \<le> turn_count s)"
  by (auto simp add: should_end_call_def MIN_TURNS_BEFORE_CLOSE_def Let_def)

lemma should_end_call_keeps_goal:
  "goal_achieved s \<Longrightarrow> goal_achieved (snd (should_end_call s agent_text))"
  by (simp add: should_end_call_def Let_def)

text \<open>
  C2. For a session with \<open>turn_count \<ge> 3\<close> and any agent utterance, \<open>should_end_call\<close>
  answers true exactly when (the lower-cased utterance contains an end phrase and
  (\<open>goal_achieved\<close>, as the evaluation has just updated it, is true or \<open>turn_count \<ge> 20\<close>))
  or \<open>turn_count \<ge> 25\<close>. The updated flag is the old flag or the presence of a goal
  indicator in the utterance. At 25 turns or more the answer is always true.
\<close>

theorem should_end_call_iff:
  assumes "3 \<le> turn_count s"
  shows "(fst (should_end_call s agent_text) =
           ((any_in end_phrases (lower agent_text) \<and>
             (goal_achieved (snd (should_end_call s agent_text)) \<or> 20 \<le> turn_count s)) \<or>
            25 \<le> turn_count s)) \<and>
         (goal_achieved (snd (should_end_call s agent_text)) =
           (goal_achieved s \<or> any_in goal_indicators (lower agent_text))) \<and>
         (25 \<le> turn_count s \<longrightarrow> fst (should_end_call s agent_text))"
proof -
  have g: "goal_achieved (snd (should_end_call s agent_text)) =
             (goal_achieved s \<or> any_in goal_indicators (lower agent_text))"
    using assms by (rule should_end_call_goal)
  have a: "fst (should_end_call s agent_text) =
     ((any_in end_phrases (lower agent_text) \<and>
       (goal_achieved s \<or> any_in goal_indicators (lower agent_text) \<or> 20 \<le> turn_count s)) \<or>
      25 \<le> turn_count s)"
    using assms by (rule should_end_call_answer)
  show ?thesis using g a by blast
qed


theorem should_end_call_iff_witness:
  "3 \<le> turn_count (demo_session 4 False) \<and>
   fst (should_end_call (demo_session 4 False) ''You are all set. Goodbye!'') \<and>
   goal_achieved (snd (should_end_call (demo_session 4 False) ''You are all set. Goodbye!'')) \<and>
   any_in end_phrases (lower ''You are all set. Goodbye!'')"
proof -
  have h: "3 \<le> turn_count (demo_session 4 False)"
    by (simp add: demo_session_def)
  have i: "any_in goal_indicators (lower ''You are all set. Goodbye!'')"
    by code_simp
  have p: "any_in end_phrases (lower ''You are all set. Goodbye!'')"
    by code_simp
  show ?thesis
    using should_end_call_iff [OF h, of "''You are all set. Goodbye!''"] h i p by simp
qed

section \<open>Replies are never empty\<close>

lemma CLARIFICATION_nonempty: "CLARIFICATION \<noteq> []"
  by (simp add: CLARIFICATION_def)

lemma generate_patient_reply_nonempty:
  "generate_patient_reply e messages = Inr r \<Longrightarrow> r \<noteq> []"
  by (auto simp add: generate_patient_reply_def rejected_def Let_def CLARIFICATION_def
      split: sum.splits if_splits)

lemma generate_reply_nonempty:
  "generate_reply e cm agent_text conf = Inr (r, cm') \<Longrightarrow> r \<noteq> []"
  by (auto simp add: generate_reply_def Let_def name_reply_def dob_reply_def CLOSING_ACK_def
      CLARIFICATION_def dest: generate_patient_reply_nonempty split: sum.splits if_splits)

lemma generate_simple_reply_fallback_nonempty: "generate_simple_reply_fallback agent_text \<noteq> []"
  by (simp add: generate_simple_reply_fallback_def Let_def)

lemma generate_gpt_reply_nonempty: "fst (generate_gpt_reply e s agent_text conf) \<noteq> []"
  by (auto simp add: generate_gpt_reply_def generate_simple_reply_fallback_nonempty
      dest: generate_reply_nonempty split: option.splits sum.splits prod.splits)

lemma generate_gpt_reply_frame:
  "goal_achieved (snd (generate_gpt_reply e s agent_text conf)) = goal_achieved s \<and>
   turn_count (snd (generate_gpt_reply e s agent_text conf)) = turn_count s \<and>
   transcript (snd (generate_gpt_reply e s agent_text conf)) = transcript s"
  by (simp add: generate_gpt_reply_def split: option.splits sum.splits prod.splits)

section \<open>The handler below the minimum turn count\<close>

lemma record_agent_turn_simps [simp]:
  "turn_count (record_agent_turn s agent_speech conf) = turn_count s + 1"
  "goal_achieved (record_agent_turn s agent_speech conf) = goal_achieved s"
  "conversation_manager (record_agent_turn s agent_speech conf) = conversation_manager s"
  by (simp_all add: record_agent_turn_def)

lemma record_patient_turn_simps [simp]:
  "turn_count (record_patient_turn s patient_reply) = turn_count s + 1"
  "goal_achieved (record_patient_turn s patient_reply) = goal_achieved s"
  "conversation_manager (record_patient_turn s patient_reply) = conversation_manager s"
  by (simp_all add: record_patient_turn_def)

lemma handle_session_early:
  assumes "turn_count s + 1 < 3"
  shows "\<exists>reply s'. reply \<noteq> [] \<and>
           handle_session closing e s agent_speech conf = ([Pause (3 / 2), Say reply, Gather], s')"
proof -
  let ?s1 = "record_agent_turn s agent_speech conf"
  have e: "should_end_call ?s1 agent_speech = (False, ?s1)"
    using assms by (simp add: should_end_call_early)
  obtain r s3 where g: "generate_gpt_reply e ?s1 agent_speech conf = (r, s3)"
    by (cases "generate_gpt_reply e ?s1 agent_speech conf")
  have "r \<noteq> []" using generate_gpt_reply_nonempty [of e ?s1 agent_speech conf] g by simp
  then show ?thesis
    using assms e g by (simp add: handle_session_def MIN_TURNS_BEFORE_CLOSE_def Let_def)
qed

lemma handle_session_early_indep:
  assumes "turn_count s + 1 < 3"
  shows "handle_session closing e s agent_speech conf =
         handle_session closing' e s agent_speech conf"
  using assms by (simp add: handle_session_def MIN_TURNS_BEFORE_CLOSE_def Let_def)

text \<open>
  C3. While the turn count is below \<open>MIN_TURNS_BEFORE_CLOSE = 3\<close>, nothing ends the call,
  whatever the agent says: \<open>should_end_call\<close> answers false and leaves the session as it
  is; and when the handler's incremented count is below 3, its result does not depend on
  the closing-utterance detector (it is the result with a detector that never fires),
  the response gathers the next utterance and holds no hang-up.
\<close>

theorem no_termination_before_min_turns:
  "(turn_count s < MIN_TURNS_BEFORE_CLOSE \<longrightarrow> should_end_call s agent_text = (False, s)) \<and>
   (turn_count s + 1 < MIN_TURNS_BEFORE_CLOSE \<longrightarrow>
      handle_session closing e s agent_text conf =
        handle_session (\<lambda>t. False) e s agent_text conf \<and>
      state_after (fst (handle_session closing e s agent_text conf)) = ACTIVE \<and>
      Hangup \<notin> set (fst (handle_session closing e s agent_text conf)))"
proof (intro conjI impI)
  assume "turn_count s < MIN_TURNS_BEFORE_CLOSE"
  then show "should_end_call s agent_text = (False, s)"
    by (simp add: should_end_call_early MIN_TURNS_BEFORE_CLOSE_def)
next
  assume "turn_count s + 1 < MIN_TURNS_BEFORE_CLOSE"
  then have lt: "turn_count s + 1 < 3" by (simp add: MIN_TURNS_BEFORE_CLOSE_def)
  show "handle_session closing e s agent_text conf =
        handle_session (\<lambda>t. False) e s agent_text conf"
    using lt by (rule handle_session_early_indep)
  from handle_session_early [OF lt, of closing e agent_text conf]
  obtain reply s' where
    "handle_session closing e s agent_text conf = ([Pause (3 / 2), Say reply, Gather], s')"
    by blast
  then show "state_after (fst (handle_session closing e s agent_text conf)) = ACTIVE"
    and "Hangup \<notin> set (fst (handle_session closing e s agent_text conf))"
    by (simp_all add: state_after_def)
qed

theorem no_termination_before_min_turns_witness:
  "turn_count (demo_session 0 False) + 1 < MIN_TURNS_BEFORE_CLOSE \<and>
   is_closing_utterance ''Thanks for calling. Goodbye!'' \<and>
   state_after (fst (handle_session is_closing_utterance failing_env (demo_session 0 False)
     ''Thanks for calling. Goodbye!'' 1)) = ACTIVE \<and>
   turn_count (demo_session 2 True) < MIN_TURNS_BEFORE_CLOSE \<and>
   should_end_call (demo_session 2 True) ''Thanks for calling. Goodbye!'' =
     (False, demo_session 2 True)"
proof -
  have a: "turn_count (demo_session 0 False) + 1 < MIN_TURNS_BEFORE_CLOSE"
    by (simp add: demo_session_def MIN_TURNS_BEFORE_CLOSE_def)
  have b: "turn_count (demo_session 2 True) < MIN_TURNS_BEFORE_CLOSE"
    by (simp add: demo_session_def MIN_TURNS_BEFORE_CLOSE_def)
  have c: "is_closing_utterance ''Thanks for calling. Goodbye!''"
    by code_simp
  have d: "state_after (fst (handle_session is_closing_utterance failing_env (demo_session 0 False)
     ''Thanks for calling. Goodbye!'' 1)) = ACTIVE"
    using a no_termination_before_min_turns [of "demo_session 0 False"
        "''Thanks for calling. Goodbye!''" is_closing_utterance failing_env 1]
    by blast
  have e: "should_end_call (demo_session 2 True) ''Thanks for calling. Goodbye!'' =
     (False, demo_session 2 True)"
    using b no_termination_before_min_turns [of "demo_session 2 True"
        "''Thanks for calling. Goodbye!''" is_closing_utterance failing_env 1]
    by blast
  show ?thesis
    using a b c d e by blast
qed

section \<open>The webhook on a registered call\<close>

lemma handle_agent_response_registered:
  assumes "active_calls sid = Some s"
  shows "handle_agent_response e active_calls sid agent_speech conf =
           (fst (handle_session is_closing_utterance e s agent_speech conf),
            active_calls(sid \<mapsto> snd (handle_session is_closing_utterance e s agent_speech conf)))"
  using assms by (simp add: handle_agent_response_def split: prod.splits)

lemma handle_agent_response_fresh:
  assumes "active_calls sid = None"
  shows "fst (handle_agent_response e active_calls sid agent_speech conf) =
           fst (handle_session is_closing_utterance e
                  (CallSession_init e sid ''appointment_scheduling'') agent_speech conf)"
  using assms by (simp add: handle_agent_response_def split: prod.splits)

section \<open>The goal flag never falls back\<close>

lemma handle_session_keeps_goal:
  "goal_achieved s \<Longrightarrow> goal_achieved (snd (handle_session closing e s agent_speech conf))"
proof -
  assume g: "goal_achieved s"
  let ?s1 = "record_agent_turn s agent_speech conf"
  obtain b s2 where se: "should_end_call ?s1 agent_speech = (b, s2)"
    by (cases "should_end_call ?s1 agent_speech")
  obtain r s3 where gg: "generate_gpt_reply e s2 agent_speech conf = (r, s3)"
    by (cases "generate_gpt_reply e s2 agent_speech conf")
  have g1: "goal_achieved ?s1" using g by simp
  have g2: "goal_achieved s2"
    using should_end_call_keeps_goal [OF g1, of agent_speech] se by simp
  have g3: "goal_achieved s3"
    using generate_gpt_reply_frame [of e s2 agent_speech conf] gg g2 by simp
  show ?thesis
    using g1 g2 g3 se gg by (cases b) (simp_all add: handle_session_def Let_def)
qed

lemma run_session_append:
  "run_session s (evs1 @ evs2) = run_session (run_session s evs1) evs2"
  by (induction evs1 arbitrary: s) auto

lemma run_session_keeps_goal:
  "goal_achieved s \<Longrightarrow> goal_achieved (run_session s evs)"
proof (induction evs arbitrary: s)
  case Nil
  then show ?case by simp
next
  case (Cons ev evs)
  obtain e agent_speech conf where ev: "ev = (e, agent_speech, conf)"
    by (cases ev)
  have "goal_achieved (snd (handle_session is_closing_utterance e s agent_speech conf))"
    using Cons.prems by (rule handle_session_keeps_goal)
  then show ?case using Cons.IH ev by simp
qed

text \<open>
  C4. \<open>goal_achieved\<close> is monotonic within a session: a fresh session has it false, and
  once it is true it stays true through \<open>should_end_call\<close>, through reply generation,
  through the handler, and so through every further run of processed agent utterances.
\<close>

theorem goal_achieved_monotonic:
  "\<not> goal_achieved (CallSession_init e sid scen) \<and>
   (goal_achieved s \<longrightarrow> goal_achieved (snd (should_end_call s agent_text))) \<and>
   (goal_achieved s \<longrightarrow> goal_achieved (snd (generate_gpt_reply e s agent_text conf))) \<and>
   (goal_achieved s \<longrightarrow> goal_achieved (snd (handle_session is_closing_utterance e s agent_text conf))) \<and>
   (goal_achieved (run_session s evs) \<longrightarrow> goal_achieved (run_session s (evs @ evs')))"
proof (intro conjI impI)
  show "\<not> goal_achieved (CallSession_init e sid scen)"
    by (simp add: CallSession_init_def)
next
  assume "goal_achieved s"
  then show "goal_achieved (snd (should_end_call s agent_text))"
    by (rule should_end_call_keeps_goal)
next
  assume "goal_achieved s"
  then show "goal_achieved (snd (generate_gpt_reply e s agent_text conf))"
    by (simp add: generate_gpt_reply_frame)
next
  assume "goal_achieved s"
  then show "goal_achieved (snd (handle_session is_closing_utterance e s agent_text conf))"
    by (rule handle_session_keeps_goal)
next
  assume "goal_achieved (run_session s evs)"
  then have "goal_achieved (run_session (run_session s evs) evs')"
    by (rule run_session_keeps_goal)
  then show "goal_achieved (run_session s (evs @ evs'))"
    by (simp add: run_session_append)
qed

theorem goal_achieved_monotonic_witness:
  "\<not> goal_achieved (CallSession_init steady_env ''CA1'' ''appointment_scheduling'') \<and>
   goal_achieved (run_session (CallSession_init steady_env ''CA1'' ''appointment_scheduling'')
     [(steady_env, ''Hello!'', 1), (steady_env, ''You are all set.'', 1)]) \<and>
   goal_achieved (run_session (CallSession_init steady_env ''CA1'' ''appointment_scheduling'')
     ([(steady_env, ''Hello!'', 1), (steady_env, ''You are all set.'', 1)] @
      [(steady_env, ''Which day?'', 1)]))"
proof -
  have a: "goal_achieved (run_session (CallSession_init steady_env ''CA1'' ''appointment_scheduling'')
     [(steady_env, ''Hello!'', 1), (steady_env, ''You are all set.'', 1)])"
    by code_simp
  show ?thesis
    using a
      goal_achieved_monotonic [of steady_env "''CA1''" "''appointment_scheduling''"
        "CallSession_init steady_env ''CA1'' ''appointment_scheduling''" "[]" 1
        "[(steady_env, ''Hello!'', 1), (steady_env, ''You are all set.'', 1)]"
        "[(steady_env, ''Which day?'', 1)]"]
    by blast
qed

section \<open>An utterance with a sign-off phrase\<close>

lemma session_after_24_facts:
  "turn_count session_after_24 = 24 \<and> \<not> goal_achieved session_after_24"
  by code_simp

lemma contains_lower_nonempty: "contains (c # cs) (lower t) \<Longrightarrow> t \<noteq> []"
  by (cases t) (simp_all add: lower_def)

lemma any_inI: "p \<in> set phrases \<Longrightarrow> contains p t \<Longrightarrow> any_in phrases t"
  by (auto simp add: any_in_def list_ex_iff)

lemma goodbye_is_closing:
  assumes "contains ''goodbye'' (lower agent_speech)"
  shows "is_closing_utterance agent_speech"
proof -
  have ne: "agent_speech \<noteq> []"
    using assms by (rule contains_lower_nonempty)
  have "any_in CLOSING_PHRASES (lower agent_speech)"
    using assms by (simp add: any_in_def CLOSING_PHRASES_def)
  then show ?thesis using ne by (simp add: is_closing_utterance_def)
qed

lemma goodbye_is_end_phrase:
  "contains ''goodbye'' (lower agent_speech) \<Longrightarrow> any_in end_phrases (lower agent_speech)"
  by (simp add: any_in_def end_phrases_def)

lemma handle_session_closing:
  assumes "2 \<le> turn_count s" and "closing agent_speech"
  shows "handle_session closing e s agent_speech conf =
         ([], record_agent_turn s agent_speech conf)"
  using assms by (simp add: handle_session_def MIN_TURNS_BEFORE_CLOSE_def Let_def)

text \<open>
  C1, as amended. An agent utterance whose lower-cased text contains \<open>goodbye\<close> ends the
  session whatever \<open>goal_achieved\<close> is: for a session with at least 2 prior turns (24 is
  one such) the closing-utterance detector fires, the handler returns an empty response
  with no patient speech, the state is \<open>ENDING\<close>, \<open>goal_achieved\<close> is unchanged and the
  turn count is one more. In \<open>should_end_call\<close> alone, for \<open>turn_count \<ge> 3\<close>, such an
  utterance gives true exactly when \<open>goal_achieved\<close> (after the update) holds or
  \<open>turn_count \<ge> 20\<close>; the flag gates the ending only below 20 turns.
\<close>

theorem goodbye_ends_session:
  assumes "contains ''goodbye'' (lower agent_speech)"
  shows "(2 \<le> turn_count s \<longrightarrow>
            fst (handle_session is_closing_utterance e s agent_speech conf) = [] \<and>
            state_after (fst (handle_session is_closing_utterance e s agent_speech conf)) = ENDING \<and>
            goal_achieved (snd (handle_session is_closing_utterance e s agent_speech conf)) =
              goal_achieved s \<and>
            turn_count (snd (handle_session is_closing_utterance e s agent_speech conf)) =
              turn_count s + 1) \<and>
         (3 \<le> turn_count s \<longrightarrow>
            fst (should_end_call s agent_speech) =
              (goal_achieved (snd (should_end_call s agent_speech)) \<or> 20 \<le> turn_count s))"
proof (intro conjI impI)
  assume t: "2 \<le> turn_count s"
  have c: "is_closing_utterance agent_speech"
    using assms by (rule goodbye_is_closing)
  note h = handle_session_closing [of s is_closing_utterance agent_speech e conf, OF t c]
  show "fst (handle_session is_closing_utterance e s agent_speech conf) = []"
    by (simp add: h)
  show "state_after (fst (handle_session is_closing_utterance e s agent_speech conf)) = ENDING"
    by (simp add: h state_after_def)
  show "goal_achieved (snd (handle_session is_closing_utterance e s agent_speech conf)) =
          goal_achieved s"
    by (simp add: h)
  show "turn_count (snd (handle_session is_closing_utterance e s agent_speech conf)) =
          turn_count s + 1"
    by (simp add: h)
next
  assume t: "3 \<le> turn_count s"
  have p: "any_in end_phrases (lower agent_speech)"
    using assms by (rule goodbye_is_end_phrase)
  show "fst (should_end_call s agent_speech) =
          (goal_achieved (snd (should_end_call s agent_speech)) \<or> 20 \<le> turn_count s)"
    using p should_end_call_answer [OF t, of agent_speech] should_end_call_goal [OF t, of agent_speech]
    by auto
qed

lemma goodbye_lower: "contains ''goodbye'' (lower ''Goodbye.'')"
  by code_simp

theorem goodbye_ends_session_witness:
  "contains ''goodbye'' (lower ''Goodbye.'') \<and>
   2 \<le> turn_count session_after_24 \<and> 3 \<le> turn_count session_after_24 \<and>
   state_after (fst (handle_session is_closing_utterance steady_env session_after_24
     ''Goodbye.'' 1)) = ENDING \<and>
   fst (should_end_call session_after_24 ''Goodbye.'')"
proof -
  have t: "turn_count session_after_24 = 24"
    using session_after_24_facts by simp
  have t2: "2 \<le> turn_count session_after_24" and t3: "3 \<le> turn_count session_after_24"
    and t20: "20 \<le> turn_count session_after_24"
    using t by simp_all
  note g = goodbye_ends_session [OF goodbye_lower, of session_after_24 steady_env 1]
  have a: "state_after (fst (handle_session is_closing_utterance steady_env session_after_24
     ''Goodbye.'' 1)) = ENDING"
    using g t2 by blast
  have b: "fst (should_end_call session_after_24 ''Goodbye.'')"
    using g t3 t20 by blast
  show ?thesis
    using goodbye_lower t2 t3 a b by blast
qed

text \<open>
  C1 as stated fails: after 24 turns without any goal indicator (12 agent utterances, each
  answered), with \<open>goal_achieved\<close> false, the utterance \<open>Goodbye.\<close> ends the session, and
  \<open>should_end_call\<close> on the 24-turn session answers true as well, the flag still false.
\<close>

theorem goodbye_after_24_turns_counterexample:
  "turn_count session_after_24 = 24 \<and> \<not> goal_achieved session_after_24 \<and>
   contains ''goodbye'' (lower ''Goodbye.'') \<and>
   state_after (fst (handle_session is_closing_utterance steady_env session_after_24
     ''Goodbye.'' 1)) = ENDING \<and>
   \<not> goal_achieved (snd (handle_session is_closing_utterance steady_env session_after_24
     ''Goodbye.'' 1)) \<and>
   fst (should_end_call session_after_24 ''Goodbye.'') \<and>
   \<not> goal_achieved (snd (should_end_call session_after_24 ''Goodbye.''))"
proof -
  have t: "turn_count session_after_24 = 24" and g: "\<not> goal_achieved session_after_24"
    using session_after_24_facts by simp_all
  have t2: "2 \<le> turn_count session_after_24" and t3: "3 \<le> turn_count session_after_24"
    using t by simp_all
  note h = handle_session_closing [of session_after_24 is_closing_utterance "''Goodbye.''" steady_env 1,
    OF t2 goodbye_is_closing [OF goodbye_lower]]
  have i: "\<not> any_in goal_indicators (lower ''Goodbye.'')"
    by code_simp
  have e: "fst (should_end_call session_after_24 ''Goodbye.'')"
    using should_end_call_answer [OF t3, of "''Goodbye.''"] goodbye_is_end_phrase [OF goodbye_lower] t
    by simp
  have n: "\<not> goal_achieved (snd (should_end_call session_after_24 ''Goodbye.''))"
    using should_end_call_goal [OF t3, of "''Goodbye.''"] g i by simp
  show ?thesis
    using t g goodbye_lower e n by (simp add: h state_after_def)
qed

section \<open>The goal evaluator\<close>

lemma goal_loop_find:
  "goal_loop cats goal txt =
     (case find (\<lambda>(goal_type, keywords). contains goal_type goal) cats of
        None \<Rightarrow> False
      | Some (goal_type, keywords) \<Rightarrow> any_in keywords txt)"
  by (induction cats goal "txt" rule: goal_loop.induct) simp_all

lemma goal_loop_none:
  "list_all (\<lambda>(goal_type, keywords). \<not> contains goal_type goal) cats \<Longrightarrow>
   \<not> goal_loop cats goal txt"
  by (induction cats goal "txt" rule: goal_loop.induct) simp_all

lemma goal_loop_split:
  assumes "\<forall>(goal_type, keywords) \<in> set before. \<not> contains goal_type goal"
    and "contains k goal"
  shows "goal_loop (before @ (k, kws) # after) goal txt = any_in kws txt"
  using assms by (induction before) auto

lemma cancel_example:
  "contains ''cancel'' (goal_of (ConversationManager_init cancel_scenario)) \<and>
   (''cancel'', [''cancelled'', ''canceled'', ''removed from'']) \<in> set goal_keywords \<and>
   any_in [''cancelled'', ''canceled'', ''removed from'']
     (lower ''Your visit on Friday has been cancelled.'') \<and>
   \<not> is_goal_completed (ConversationManager_init cancel_scenario)
     ''Your visit on Friday has been cancelled.''"
  by code_simp

text \<open>
  C8, as amended. The goal evaluator answers true exactly when the lower-cased goal contains
  the name of some category and the lower-cased conversation text contains a completion
  indicator of the first such category in the order appointment, refill, reschedule,
  cancel. When the goal contains no category name, the answer is false.
\<close>

theorem is_goal_completed_first_category:
  "is_goal_completed cm conversation_text =
     (case find (\<lambda>(goal_type, keywords). contains goal_type (goal_of cm)) goal_keywords of
        None \<Rightarrow> False
      | Some (goal_type, keywords) \<Rightarrow> any_in keywords (lower conversation_text)) \<and>
   (list_all (\<lambda>(goal_type, keywords). \<not> contains goal_type (goal_of cm)) goal_keywords \<longrightarrow>
      \<not> is_goal_completed cm conversation_text)"
  by (simp add: is_goal_completed_def Let_def goal_loop_find [symmetric] goal_loop_none)

theorem is_goal_completed_first_category_witness:
  "list_all (\<lambda>(goal_type, keywords).
      \<not> contains goal_type (goal_of (ConversationManager_init billing_scenario))) goal_keywords \<and>
   \<not> is_goal_completed (ConversationManager_init billing_scenario)
      ''Your appointment is scheduled and booked.'' \<and>
   is_goal_completed (ConversationManager_init appointment_scenario)
      ''Your appointment is scheduled and booked.''"
proof -
  have a: "list_all (\<lambda>(goal_type, keywords).
      \<not> contains goal_type (goal_of (ConversationManager_init billing_scenario))) goal_keywords"
    by code_simp
  have b: "\<not> is_goal_completed (ConversationManager_init billing_scenario)
      ''Your appointment is scheduled and booked.''"
    using a is_goal_completed_first_category [of "ConversationManager_init billing_scenario"
        "''Your appointment is scheduled and booked.''"]
    by blast
  have c: "find (\<lambda>(goal_type, keywords).
        contains goal_type (goal_of (ConversationManager_init appointment_scenario))) goal_keywords =
      Some (''appointment'',
        [''scheduled'', ''appointment is'', ''booked'', ''see you on'', ''confirmation''])"
    by code_simp
  have d: "any_in [''scheduled'', ''appointment is'', ''booked'', ''see you on'', ''confirmation'']
      (lower ''Your appointment is scheduled and booked.'')"
    by code_simp
  have e: "is_goal_completed (ConversationManager_init appointment_scenario)
      ''Your appointment is scheduled and booked.''"
    using is_goal_completed_first_category [of "ConversationManager_init appointment_scenario"
        "''Your appointment is scheduled and booked.''"] c d
    by simp
  show ?thesis using a b e by blast
qed

text \<open>
  C8 as stated fails: the goal \<open>Cancel my appointment on Friday\<close> contains the category name
  \<open>cancel\<close>, the conversation text contains that category's indicator \<open>cancelled\<close>, and
  the evaluator answers false, because \<open>appointment\<close> comes first.
\<close>

theorem goal_evaluator_some_category_counterexample:
  "contains ''cancel'' (goal_of (ConversationManager_init cancel_scenario)) \<and>
   (''cancel'', [''cancelled'', ''canceled'', ''removed from'']) \<in> set goal_keywords \<and>
   any_in [''cancelled'', ''canceled'', ''removed from'']
     (lower ''Your visit on Friday has been cancelled.'') \<and>
   \<not> is_goal_completed (ConversationManager_init cancel_scenario)
     ''Your visit on Friday has been cancelled.''"
  by (rule cancel_example)

text \<open>
  C10. Only the first category whose name occurs in the goal, in the order appointment,
  refill, reschedule, cancel, is consulted: whatever categories come after it, the answer
  is whether one of its indicators occurs in the text. So there are inputs on which the
  evaluator answers false although a later category matches the goal and one of that
  category's indicators is in the conversation text.
\<close>

theorem first_matching_category_decides:
  "(goal_keywords = before @ (k, kws) # after \<and>
    (\<forall>(goal_type, keywords) \<in> set before. \<not> contains goal_type (goal_of cm)) \<and>
    contains k (goal_of cm) \<longrightarrow>
      is_goal_completed cm conversation_text = any_in kws (lower conversation_text)) \<and>
   map fst goal_keywords = [''appointment'', ''refill'', ''reschedule'', ''cancel''] \<and>
   (\<exists>cm' conversation_text' k' kws'.
      (k', kws') \<in> set goal_keywords \<and> contains k' (goal_of cm') \<and>
      any_in kws' (lower conversation_text') \<and> \<not> is_goal_completed cm' conversation_text')"
proof (intro conjI impI)
  assume a: "goal_keywords = before @ (k, kws) # after \<and>
    (\<forall>(goal_type, keywords) \<in> set before. \<not> contains goal_type (goal_of cm)) \<and>
    contains k (goal_of cm)"
  then have "goal_loop (before @ (k, kws) # after) (goal_of cm) (lower conversation_text) =
      any_in kws (lower conversation_text)"
    by (intro goal_loop_split) blast+
  with a show "is_goal_completed cm conversation_text = any_in kws (lower conversation_text)"
    by (simp add: is_goal_completed_def Let_def)
next
  show "map fst goal_keywords = [''appointment'', ''refill'', ''reschedule'', ''cancel'']"
    by (simp add: goal_keywords_def)
next
  show "\<exists>cm' conversation_text' k' kws'.
      (k', kws') \<in> set goal_keywords \<and> contains k' (goal_of cm') \<and>
      any_in kws' (lower conversation_text') \<and> \<not> is_goal_completed cm' conversation_text'"
    using cancel_example by blast
qed

theorem first_matching_category_decides_witness:
  "goal_keywords =
     [(''appointment'', [''scheduled'', ''appointment is'', ''booked'', ''see you on'', ''confirmation''])] @
     (''refill'', [''prescription'', ''refill'', ''pharmacy'', ''sent to'', ''filled'']) #
     [(''reschedule'', [''rescheduled'', ''moved'', ''changed'', ''new time'']),
      (''cancel'', [''cancelled'', ''canceled'', ''removed from''])] \<and>
   \<not> contains ''appointment'' (goal_of (ConversationManager_init refill_cancel_scenario)) \<and>
   contains ''refill'' (goal_of (ConversationManager_init refill_cancel_scenario)) \<and>
   contains ''cancel'' (goal_of (ConversationManager_init refill_cancel_scenario)) \<and>
   any_in [''cancelled'', ''canceled'', ''removed from''] (lower ''Your request is now cancelled.'') \<and>
   \<not> any_in [''prescription'', ''refill'', ''pharmacy'', ''sent to'', ''filled'']
      (lower ''Your request is now cancelled.'') \<and>
   \<not> is_goal_completed (ConversationManager_init refill_cancel_scenario)
      ''Your request is now cancelled.''"
proof -
  let ?cm = "ConversationManager_init refill_cancel_scenario"
  let ?before = "[(''appointment'',
      [''scheduled'', ''appointment is'', ''booked'', ''see you on'', ''confirmation''])]"
  let ?kws = "[''prescription'', ''refill'', ''pharmacy'', ''sent to'', ''filled'']"
  let ?after = "[(''reschedule'', [''rescheduled'', ''moved'', ''changed'', ''new time'']),
      (''cancel'', [''cancelled'', ''canceled'', ''removed from''])]"
  have k: "goal_keywords = ?before @ (''refill'', ?kws) # ?after"
    by (simp add: goal_keywords_def)
  have a: "\<not> contains ''appointment'' (goal_of ?cm)"
    by code_simp
  have r: "contains ''refill'' (goal_of ?cm)"
    by code_simp
  have c: "contains ''cancel'' (goal_of ?cm)"
    by code_simp
  have i: "any_in [''cancelled'', ''canceled'', ''removed from'']
      (lower ''Your request is now cancelled.'')"
    by code_simp
  have n: "\<not> any_in ?kws (lower ''Your request is now cancelled.'')"
    by code_simp
  have b: "\<forall>(goal_type, keywords) \<in> set ?before. \<not> contains goal_type (goal_of ?cm)"
    using a by simp
  have "is_goal_completed ?cm ''Your request is now cancelled.'' =
      any_in ?kws (lower ''Your request is now cancelled.'')"
    using first_matching_category_decides [of ?before "''refill''" ?kws ?after ?cm
        "''Your request is now cancelled.''"] k b r
    by blast
  then have "\<not> is_goal_completed ?cm ''Your request is now cancelled.''"
    using n by simp
  then show ?thesis using k a r c i n by blast
qed

section \<open>The phases of generate_reply\<close>

lemma asks_name_verification:
  "asks_name agent_lower \<Longrightarrow> any_in verification_phrases agent_lower"
  by (auto simp add: asks_name_def any_in_def verification_phrases_def)


lemma generate_reply_name:
  "asks_name (lower agent_text) \<Longrightarrow>
   generate_reply e cm agent_text conf = Inr (name_reply (context_of cm), cm)"
  by (simp add: generate_reply_def Let_def asks_name_verification)

lemma generate_reply_dob:
  "\<not> asks_name (lower agent_text) \<Longrightarrow>
   any_in verification_phrases (lower agent_text) \<Longrightarrow> asks_dob (lower agent_text) \<Longrightarrow>
   generate_reply e cm agent_text conf = Inr (dob_reply (context_of cm), cm)"
  by (simp add: generate_reply_def Let_def)

lemma generate_reply_ack:
  "\<not> asks_name (lower agent_text) \<Longrightarrow>
   \<not> (any_in verification_phrases (lower agent_text) \<and> asks_dob (lower agent_text)) \<Longrightarrow>
   any_in completion_signals (lower agent_text) \<Longrightarrow>
   is_goal_completed cm (full_context cm agent_text) \<Longrightarrow>
   generate_reply e cm agent_text conf = Inr (CLOSING_ACK, cm)"
  by (auto simp add: generate_reply_def Let_def)

lemma generate_reply_generative:
  "\<not> asks_name (lower agent_text) \<Longrightarrow>
   \<not> (any_in verification_phrases (lower agent_text) \<and> asks_dob (lower agent_text)) \<Longrightarrow>
   \<not> (any_in completion_signals (lower agent_text) \<and>
      is_goal_completed cm (full_context cm agent_text)) \<Longrightarrow>
   generate_reply e cm agent_text conf =
     (case generate_system_prompt e cm of
        Inl err \<Rightarrow> Inl err
      | Inr prompt \<Rightarrow>
          (case generate_patient_reply e (request_messages prompt cm agent_text conf) of
             Inr patient_reply \<Rightarrow> Inr (patient_reply, record_exchange cm agent_text patient_reply)
           | Inl err \<Rightarrow> Inr (CLARIFICATION, cm)))"
  by (auto simp add: generate_reply_def Let_def)




section \<open>Evaluations on the appointment scenario\<close>

lemma cm0_replies:
  "name_reply (context_of cm0) = ''Yes, this is Lucas.''"
  "dob_reply (context_of cm0) = ''February 17th, 2026.''"
  by code_simp+

lemma cm0_prompt:
  "generate_system_prompt steady_env cm0 = Inr ''You are Lucas.''"
  "generate_system_prompt failing_env cm0 = Inr ''You are Lucas.''"
  "generate_system_prompt short_env cm0 = Inr ''You are Lucas.''"
  by code_simp+



lemma short_env_reply:
  "generate_patient_reply short_env messages = Inr CLARIFICATION"
  by code_simp




section \<open>The completion offer\<close>

text \<open>
  C6, as amended. When the verification phase does not answer (no name trigger, and no
  date-of-birth or \<open>dob\<close> mention beside a verification trigger), the lower-cased
  utterance contains a closing-offer phrase and the goal evaluator judges the goal
  satisfied over the history joined with the utterance, \<open>generate_reply\<close> returns exactly
  \<open>No, that's all. Thank you!\<close>, with the manager unchanged and the same result for every
  completion capability and confidence.
\<close>

theorem closing_offer_acknowledged:
  assumes "\<not> asks_name (lower agent_text)"
    and "\<not> (any_in verification_phrases (lower agent_text) \<and> asks_dob (lower agent_text))"
    and "any_in completion_signals (lower agent_text)"
    and "is_goal_completed cm (full_context cm agent_text)"
  shows "generate_reply e cm agent_text conf = Inr (CLOSING_ACK, cm) \<and>
         generate_reply e' cm agent_text conf' = generate_reply e cm agent_text conf \<and>
         CLOSING_ACK = ''No, that'' @ [CHR 0x27] @ ''s all. Thank you!''"
proof -
  have "generate_reply e cm agent_text conf = Inr (CLOSING_ACK, cm)"
    using assms by (rule generate_reply_ack)
  moreover have "generate_reply e' cm agent_text conf' = Inr (CLOSING_ACK, cm)"
    using assms by (rule generate_reply_ack)
  ultimately show ?thesis by (simp add: CLOSING_ACK_def)
qed

lemma offer_facts:
  "\<not> asks_name (lower ''Your appointment is scheduled. Is there anything else I can help with?'')"
  "\<not> any_in verification_phrases
      (lower ''Your appointment is scheduled. Is there anything else I can help with?'')"
  "any_in completion_signals
      (lower ''Your appointment is scheduled. Is there anything else I can help with?'')"
  "is_goal_completed cm0
      (full_context cm0 ''Your appointment is scheduled. Is there anything else I can help with?'')"
  by code_simp+

theorem closing_offer_acknowledged_witness:
  "\<not> asks_name (lower ''Your appointment is scheduled. Is there anything else I can help with?'') \<and>
   any_in completion_signals
      (lower ''Your appointment is scheduled. Is there anything else I can help with?'') \<and>
   is_goal_completed cm0
      (full_context cm0 ''Your appointment is scheduled. Is there anything else I can help with?'') \<and>
   generate_reply steady_env cm0
      ''Your appointment is scheduled. Is there anything else I can help with?'' 1 =
     Inr (CLOSING_ACK, cm0)"
proof -
  let ?u = "''Your appointment is scheduled. Is there anything else I can help with?''"
  have v: "\<not> (any_in verification_phrases (lower ?u) \<and> asks_dob (lower ?u))"
    using offer_facts(2) by simp
  have "generate_reply steady_env cm0 ?u 1 = Inr (CLOSING_ACK, cm0)"
    using closing_offer_acknowledged [OF offer_facts(1) v offer_facts(3) offer_facts(4),
        of steady_env 1 steady_env 1]
    by simp
  then show ?thesis using offer_facts by blast
qed

lemma offer_with_name_facts:
  "asks_name (lower
     ''Your appointment is scheduled. May I have your name? Is there anything else I can help with?'')"
  "any_in completion_signals (lower
     ''Your appointment is scheduled. May I have your name? Is there anything else I can help with?'')"
  "is_goal_completed cm0 (full_context cm0
     ''Your appointment is scheduled. May I have your name? Is there anything else I can help with?'')"
  by code_simp+

text \<open>
  C6 as stated fails: an utterance with a closing offer and a satisfied goal that also asks
  for the name is answered by the verification phase, which comes first.
\<close>

theorem closing_offer_with_name_counterexample:
  "any_in completion_signals (lower
     ''Your appointment is scheduled. May I have your name? Is there anything else I can help with?'') \<and>
   is_goal_completed cm0 (full_context cm0
     ''Your appointment is scheduled. May I have your name? Is there anything else I can help with?'') \<and>
   generate_reply steady_env cm0
     ''Your appointment is scheduled. May I have your name? Is there anything else I can help with?'' 1 =
     Inr (''Yes, this is Lucas.'', cm0) \<and>
   ''Yes, this is Lucas.'' \<noteq> CLOSING_ACK"
  by (simp add: offer_with_name_facts generate_reply_name cm0_replies CLOSING_ACK_def)

section \<open>Generation failures\<close>

lemma strip_length: "length (strip s) \<le> length s"
proof -
  have "length (strip s) \<le> length (dropWhile is_space s)"
    unfolding strip_def using length_dropWhile_le [of is_space "rev (dropWhile is_space s)"]
    by simp
  also have "\<dots> \<le> length s"
    by (rule length_dropWhile_le)
  finally show ?thesis .
qed

lemma rejected_short: "length t < 8 \<Longrightarrow> rejected (candidate_text (Some t))"
  using strip_length [of t] by (simp add: rejected_def candidate_text_def)

lemma rejected_none: "rejected (candidate_text None)"
  by (simp add: rejected_def candidate_text_def strip_def)

lemma rejected_fragment: "rejected (candidate_text (Some ''I would like''))"
  by code_simp

lemma generate_patient_reply_raises:
  "chat_completion e messages = Inl err \<Longrightarrow> generate_patient_reply e messages = Inl err"
  by (simp add: generate_patient_reply_def)

lemma generate_patient_reply_returns:
  "chat_completion e messages = Inr c \<Longrightarrow>
   generate_patient_reply e messages =
     Inr (if rejected (candidate_text c) then CLARIFICATION else candidate_text c)"
  by (simp add: generate_patient_reply_def Let_def)

lemma should_end_call_manager:
  "conversation_manager (snd (should_end_call s agent_text)) = conversation_manager s"
  by (simp add: should_end_call_def Let_def)

lemma handle_session_reply:
  assumes "\<not> (MIN_TURNS_BEFORE_CLOSE \<le> turn_count s + 1 \<and> closing agent_speech)"
    and "should_end_call (record_agent_turn s agent_speech conf) agent_speech = (False, s2)"
    and "generate_gpt_reply e s2 agent_speech conf = (r, s3)"
  shows "handle_session closing e s agent_speech conf =
           ([Pause (3 / 2), Say r, Gather], record_patient_turn s3 r)"
proof -
  have "r \<noteq> []"
    using generate_gpt_reply_nonempty [of e s2 agent_speech conf] assms(3) by simp
  then show ?thesis
    using assms by (auto simp add: handle_session_def Let_def)
qed

lemma generate_reply_bad_completion:
  assumes "\<not> asks_name (lower agent_text)"
    and "\<not> (any_in verification_phrases (lower agent_text) \<and> asks_dob (lower agent_text))"
    and "\<not> (any_in completion_signals (lower agent_text) \<and>
           is_goal_completed cm (full_context cm agent_text))"
    and "generate_system_prompt e cm = Inr prompt"
    and "chat_completion e (request_messages prompt cm agent_text conf) = Inl err \<or>
         (\<exists>c. chat_completion e (request_messages prompt cm agent_text conf) = Inr c \<and>
              rejected (candidate_text c))"
  shows "generate_reply e cm agent_text conf = Inr (CLARIFICATION, cm) \<or>
         generate_reply e cm agent_text conf =
           Inr (CLARIFICATION, record_exchange cm agent_text CLARIFICATION)"
  using assms(5)
proof
  assume "chat_completion e (request_messages prompt cm agent_text conf) = Inl err"
  then have "generate_patient_reply e (request_messages prompt cm agent_text conf) = Inl err"
    by (rule generate_patient_reply_raises)
  then show ?thesis
    using generate_reply_generative [OF assms(1-3), of e conf] assms(4) by simp
next
  assume "\<exists>c. chat_completion e (request_messages prompt cm agent_text conf) = Inr c \<and>
              rejected (candidate_text c)"
  then obtain c where c: "chat_completion e (request_messages prompt cm agent_text conf) = Inr c"
    and r: "rejected (candidate_text c)"
    by blast
  have "generate_patient_reply e (request_messages prompt cm agent_text conf) = Inr CLARIFICATION"
    using generate_patient_reply_returns [OF c] r by simp
  then show ?thesis
    using generate_reply_generative [OF assms(1-3), of e conf] assms(4) by simp
qed

text \<open>
  C7. Whenever the completion capability is called (no earlier phase answers and the
  prompt is built) and it raises, or returns no content, an empty candidate, one shorter
  than 8 characters, one of the fragments \<open>I need\<close> and \<open>I would like\<close>, or any candidate
  the guard refuses after stripping, \<open>generate_reply\<close> returns the fixed clarification
  instead of failing; \<open>generate_gpt_reply\<close> passes it on; and a handler that has not ended
  the call before generating answers with the clarification and a gather, so the session
  stays \<open>ACTIVE\<close>.
\<close>

theorem generation_failure_clarification:
  assumes "\<not> asks_name (lower agent_text)"
    and "\<not> (any_in verification_phrases (lower agent_text) \<and> asks_dob (lower agent_text))"
    and "\<not> (any_in completion_signals (lower agent_text) \<and>
           is_goal_completed cm (full_context cm agent_text))"
    and "generate_system_prompt e cm = Inr prompt"
    and "chat_completion e (request_messages prompt cm agent_text conf) = Inl err \<or>
         chat_completion e (request_messages prompt cm agent_text conf) = Inr None \<or>
         (\<exists>c. chat_completion e (request_messages prompt cm agent_text conf) = Inr (Some c) \<and>
              (c = [] \<or> length c < 8 \<or> c = ''I need'' \<or> c = ''I would like'' \<or>
               rejected (candidate_text (Some c))))"
  shows "(\<exists>cm'. generate_reply e cm agent_text conf = Inr (CLARIFICATION, cm')) \<and>
         (conversation_manager s = Some cm \<longrightarrow>
            fst (generate_gpt_reply e s agent_text conf) = CLARIFICATION) \<and>
         (conversation_manager s = Some cm \<and>
          \<not> (MIN_TURNS_BEFORE_CLOSE \<le> turn_count s + 1 \<and> is_closing_utterance agent_text) \<and>
          \<not> fst (should_end_call (record_agent_turn s agent_text conf) agent_text) \<longrightarrow>
            fst (handle_session is_closing_utterance e s agent_text conf) =
              [Pause (3 / 2), Say CLARIFICATION, Gather] \<and>
            state_after (fst (handle_session is_closing_utterance e s agent_text conf)) = ACTIVE)"
proof -
  have bad: "chat_completion e (request_messages prompt cm agent_text conf) = Inl err \<or>
         (\<exists>c. chat_completion e (request_messages prompt cm agent_text conf) = Inr c \<and>
              rejected (candidate_text c))"
    using assms(5)
  proof (elim disjE exE conjE)
    assume "chat_completion e (request_messages prompt cm agent_text conf) = Inl err"
    then show ?thesis by (rule disjI1)
  next
    assume "chat_completion e (request_messages prompt cm agent_text conf) = Inr None"
    then show ?thesis using rejected_none by blast
  next
    fix c
    assume c: "chat_completion e (request_messages prompt cm agent_text conf) = Inr (Some c)"
    assume "c = []"
    then have "rejected (candidate_text (Some c))" by (simp add: rejected_short)
    then show ?thesis using c by blast
  next
    fix c
    assume c: "chat_completion e (request_messages prompt cm agent_text conf) = Inr (Some c)"
    assume "length c < 8"
    then have "rejected (candidate_text (Some c))" by (rule rejected_short)
    then show ?thesis using c by blast
  next
    fix c
    assume c: "chat_completion e (request_messages prompt cm agent_text conf) = Inr (Some c)"
    assume "c = ''I need''"
    then have "rejected (candidate_text (Some c))" by (simp add: rejected_short)
    then show ?thesis using c by blast
  next
    fix c
    assume c: "chat_completion e (request_messages prompt cm agent_text conf) = Inr (Some c)"
    assume "c = ''I would like''"
    then have "rejected (candidate_text (Some c))" by (simp add: rejected_fragment)
    then show ?thesis using c by blast
  next
    fix c
    assume c: "chat_completion e (request_messages prompt cm agent_text conf) = Inr (Some c)"
    assume "rejected (candidate_text (Some c))"
    then show ?thesis using c by blast
  qed
  note r = generate_reply_bad_completion [OF assms(1-4) bad]
  then obtain cm' where g: "generate_reply e cm agent_text conf = Inr (CLARIFICATION, cm')"
    by blast
  have gpt: "fst (generate_gpt_reply e s' agent_text conf) = CLARIFICATION"
    if "conversation_manager s' = Some cm" for s'
    using that g by (simp add: generate_gpt_reply_def)
  show ?thesis
  proof (intro conjI impI)
    show "\<exists>cm'. generate_reply e cm agent_text conf = Inr (CLARIFICATION, cm')"
      using g by blast
  next
    assume "conversation_manager s = Some cm"
    then show "fst (generate_gpt_reply e s agent_text conf) = CLARIFICATION"
      by (rule gpt)
  next
    assume a: "conversation_manager s = Some cm \<and>
          \<not> (MIN_TURNS_BEFORE_CLOSE \<le> turn_count s + 1 \<and> is_closing_utterance agent_text) \<and>
          \<not> fst (should_end_call (record_agent_turn s agent_text conf) agent_text)"
    obtain s2 where s2: "should_end_call (record_agent_turn s agent_text conf) agent_text = (False, s2)"
      using a by (cases "should_end_call (record_agent_turn s agent_text conf) agent_text") auto
    have m: "conversation_manager s2 = Some cm"
      using should_end_call_manager [of "record_agent_turn s agent_text conf" agent_text] s2 a
      by simp
    obtain rr s3 where s3: "generate_gpt_reply e s2 agent_text conf = (rr, s3)"
      by (cases "generate_gpt_reply e s2 agent_text conf")
    have rr: "rr = CLARIFICATION"
      using gpt [OF m] s3 by simp
    have h: "handle_session is_closing_utterance e s agent_text conf =
           ([Pause (3 / 2), Say CLARIFICATION, Gather], record_patient_turn s3 CLARIFICATION)"
      using handle_session_reply [of s is_closing_utterance agent_text conf s2 e rr s3] a s2 s3 rr
      by simp
    show "fst (handle_session is_closing_utterance e s agent_text conf) =
              [Pause (3 / 2), Say CLARIFICATION, Gather]"
      by (simp add: h)
    show "state_after (fst (handle_session is_closing_utterance e s agent_text conf)) = ACTIVE"
      by (simp add: h state_after_def)
  qed
qed

lemma which_day_facts:
  "\<not> asks_name (lower ''Which day?'')"
  "\<not> any_in verification_phrases (lower ''Which day?'')"
  "\<not> any_in completion_signals (lower ''Which day?'')"
  "\<not> is_closing_utterance ''Which day?''"
  "\<not> fst (should_end_call (record_agent_turn managed_session ''Which day?'' 1) ''Which day?'')"
  by code_simp+

theorem generation_failure_clarification_witness:
  "\<not> asks_name (lower ''Which day?'') \<and>
   generate_system_prompt failing_env cm0 = Inr ''You are Lucas.'' \<and>
   chat_completion failing_env (request_messages ''You are Lucas.'' cm0 ''Which day?'' 1) =
     Inl CompletionError \<and>
   (\<exists>cm'. generate_reply failing_env cm0 ''Which day?'' 1 = Inr (CLARIFICATION, cm')) \<and>
   conversation_manager managed_session = Some cm0 \<and>
   state_after (fst (handle_session is_closing_utterance failing_env managed_session
     ''Which day?'' 1)) = ACTIVE \<and>
   chat_completion short_env (request_messages ''You are Lucas.'' cm0 ''Which day?'' 1) =
     Inr (Some ''  Okay. '') \<and>
   (\<exists>cm'. generate_reply short_env cm0 ''Which day?'' 1 = Inr (CLARIFICATION, cm'))"
proof -
  let ?m = "request_messages ''You are Lucas.'' cm0 ''Which day?'' 1"
  have v: "\<not> (any_in verification_phrases (lower ''Which day?'') \<and> asks_dob (lower ''Which day?''))"
    using which_day_facts(2) by simp
  have o: "\<not> (any_in completion_signals (lower ''Which day?'') \<and>
      is_goal_completed cm0 (full_context cm0 ''Which day?''))"
    using which_day_facts(3) by simp
  have f: "chat_completion failing_env ?m = Inl CompletionError"
    by (simp add: failing_env_def)
  have k: "chat_completion short_env ?m = Inr (Some ''  Okay. '')"
    by (simp add: short_env_def)
  have rj: "rejected (candidate_text (Some ''  Okay. ''))"
    by code_simp
  have m: "conversation_manager managed_session = Some cm0"
    by (simp add: managed_session_def)
  have c: "\<not> (MIN_TURNS_BEFORE_CLOSE \<le> turn_count managed_session + 1 \<and>
      is_closing_utterance ''Which day?'')"
    using which_day_facts(4) by simp
  have bad1: "chat_completion failing_env ?m = Inl CompletionError \<or>
      chat_completion failing_env ?m = Inr None \<or>
      (\<exists>c. chat_completion failing_env ?m = Inr (Some c) \<and>
         (c = [] \<or> length c < 8 \<or> c = ''I need'' \<or> c = ''I would like'' \<or>
          rejected (candidate_text (Some c))))"
    using f by simp
  have bad2: "chat_completion short_env ?m = Inl CompletionError \<or>
      chat_completion short_env ?m = Inr None \<or>
      (\<exists>c. chat_completion short_env ?m = Inr (Some c) \<and>
         (c = [] \<or> length c < 8 \<or> c = ''I need'' \<or> c = ''I would like'' \<or>
          rejected (candidate_text (Some c))))"
    using k rj by simp
  note t1 = generation_failure_clarification [OF which_day_facts(1) v o cm0_prompt(2) bad1,
      of managed_session]
  note t2 = generation_failure_clarification [OF which_day_facts(1) v o cm0_prompt(3) bad2,
      of managed_session]
  have a1: "\<exists>cm'. generate_reply failing_env cm0 ''Which day?'' 1 = Inr (CLARIFICATION, cm')"
    using t1 by blast
  have a2: "state_after (fst (handle_session is_closing_utterance failing_env managed_session
     ''Which day?'' 1)) = ACTIVE"
    using t1 m c which_day_facts(5) by blast
  have a3: "\<exists>cm'. generate_reply short_env cm0 ''Which day?'' 1 = Inr (CLARIFICATION, cm')"
    using t2 by blast
  show ?thesis
    using which_day_facts(1) cm0_prompt(2) f a1 m a2 k a3 by blast
qed

section \<open>What generate_reply does to the manager\<close>

text \<open>
  C9, as amended. The verification reply, the completion-offer acknowledgment and the
  fallback after a raised completion error leave the manager (history and counter) as it
  was. When the completion call returns, the history gets exactly two more entries, the
  agent message and then the patient message, and the counter goes up by one; the patient
  message is the fixed clarification when the candidate was refused. Every successful
  return of \<open>generate_reply\<close> is one of the two: manager unchanged, or that one exchange
  recorded.
\<close>

theorem generate_reply_frame:
  "(asks_name (lower agent_text) \<or>
    (any_in verification_phrases (lower agent_text) \<and> asks_dob (lower agent_text)) \<or>
    (any_in completion_signals (lower agent_text) \<and>
       is_goal_completed cm (full_context cm agent_text)) \<longrightarrow>
      (\<exists>r. generate_reply e cm agent_text conf = Inr (r, cm))) \<and>
   (\<not> asks_name (lower agent_text) \<and>
    \<not> (any_in verification_phrases (lower agent_text) \<and> asks_dob (lower agent_text)) \<and>
    \<not> (any_in completion_signals (lower agent_text) \<and>
       is_goal_completed cm (full_context cm agent_text)) \<and>
    generate_system_prompt e cm = Inr prompt \<longrightarrow>
      (chat_completion e (request_messages prompt cm agent_text conf) = Inl err \<longrightarrow>
         generate_reply e cm agent_text conf = Inr (CLARIFICATION, cm)) \<and>
      (chat_completion e (request_messages prompt cm agent_text conf) = Inr c \<longrightarrow>
         generate_reply e cm agent_text conf =
           Inr (if rejected (candidate_text c) then CLARIFICATION else candidate_text c,
                cm\<lparr>conversation_history :=
                     conversation_history cm @
                     [\<lparr>role = ''user'', content = ''Agent: '' @ agent_text\<rparr>,
                      \<lparr>role = ''assistant'',
                       content = (if rejected (candidate_text c) then CLARIFICATION
                                  else candidate_text c)\<rparr>],
                   cm_turn_count := cm_turn_count cm + 1\<rparr>))) \<and>
   (generate_reply e cm agent_text conf = Inr (r, cm') \<longrightarrow>
      cm' = cm \<or> cm' = record_exchange cm agent_text r)"
proof (intro conjI impI)
  assume "asks_name (lower agent_text) \<or>
    (any_in verification_phrases (lower agent_text) \<and> asks_dob (lower agent_text)) \<or>
    (any_in completion_signals (lower agent_text) \<and>
       is_goal_completed cm (full_context cm agent_text))"
  then show "\<exists>r. generate_reply e cm agent_text conf = Inr (r, cm)"
    using generate_reply_name [of agent_text e cm conf] generate_reply_dob [of agent_text e cm conf]
      generate_reply_ack [of agent_text cm e conf]
    by blast
next
  assume a: "\<not> asks_name (lower agent_text) \<and>
    \<not> (any_in verification_phrases (lower agent_text) \<and> asks_dob (lower agent_text)) \<and>
    \<not> (any_in completion_signals (lower agent_text) \<and>
       is_goal_completed cm (full_context cm agent_text)) \<and>
    generate_system_prompt e cm = Inr prompt"
  assume "chat_completion e (request_messages prompt cm agent_text conf) = Inl err"
  then have "generate_patient_reply e (request_messages prompt cm agent_text conf) = Inl err"
    by (rule generate_patient_reply_raises)
  then show "generate_reply e cm agent_text conf = Inr (CLARIFICATION, cm)"
    using a generate_reply_generative [of agent_text cm e conf] by simp
next
  assume a: "\<not> asks_name (lower agent_text) \<and>
    \<not> (any_in verification_phrases (lower agent_text) \<and> asks_dob (lower agent_text)) \<and>
    \<not> (any_in completion_signals (lower agent_text) \<and>
       is_goal_completed cm (full_context cm agent_text)) \<and>
    generate_system_prompt e cm = Inr prompt"
  assume "chat_completion e (request_messages prompt cm agent_text conf) = Inr c"
  then have "generate_patient_reply e (request_messages prompt cm agent_text conf) =
      Inr (if rejected (candidate_text c) then CLARIFICATION else candidate_text c)"
    by (rule generate_patient_reply_returns)
  then show "generate_reply e cm agent_text conf =
           Inr (if rejected (candidate_text c) then CLARIFICATION else candidate_text c,
                cm\<lparr>conversation_history :=
                     conversation_history cm @
                     [\<lparr>role = ''user'', content = ''Agent: '' @ agent_text\<rparr>,
                      \<lparr>role = ''assistant'',
                       content = (if rejected (candidate_text c) then CLARIFICATION
                                  else candidate_text c)\<rparr>],
                   cm_turn_count := cm_turn_count cm + 1\<rparr>)"
    using a generate_reply_generative [of agent_text cm e conf]
    by (simp add: record_exchange_def)
next
  assume "generate_reply e cm agent_text conf = Inr (r, cm')"
  then show "cm' = cm \<or> cm' = record_exchange cm agent_text r"
    by (auto simp add: generate_reply_def Let_def split: if_splits sum.splits)
qed

lemma morning_slot_kept:
  "candidate_text (Some ''I would like a morning slot.'') = ''I would like a morning slot.''"
  "\<not> rejected ''I would like a morning slot.''"
  by code_simp+

theorem generate_reply_frame_witness:
  "asks_name (lower ''Am I speaking with Lucas?'') \<and>
   (\<exists>r. generate_reply steady_env cm0 ''Am I speaking with Lucas?'' 1 = Inr (r, cm0)) \<and>
   \<not> asks_name (lower ''Which day?'') \<and>
   generate_system_prompt failing_env cm0 = Inr ''You are Lucas.'' \<and>
   chat_completion failing_env (request_messages ''You are Lucas.'' cm0 ''Which day?'' 1) =
     Inl CompletionError \<and>
   generate_reply failing_env cm0 ''Which day?'' 1 = Inr (CLARIFICATION, cm0) \<and>
   chat_completion steady_env (request_messages ''You are Lucas.'' cm0 ''Which day?'' 1) =
     Inr (Some ''I would like a morning slot.'') \<and>
   generate_reply steady_env cm0 ''Which day?'' 1 =
     Inr (''I would like a morning slot.'',
          cm0\<lparr>conversation_history :=
                [\<lparr>role = ''user'', content = ''Agent: Which day?''\<rparr>,
                 \<lparr>role = ''assistant'', content = ''I would like a morning slot.''\<rparr>],
              cm_turn_count := 1\<rparr>)"
proof -
  let ?m = "request_messages ''You are Lucas.'' cm0 ''Which day?'' 1"
  have n: "asks_name (lower ''Am I speaking with Lucas?'')"
    by code_simp
  have v: "\<not> (any_in verification_phrases (lower ''Which day?'') \<and> asks_dob (lower ''Which day?''))"
    using which_day_facts(2) by simp
  have o: "\<not> (any_in completion_signals (lower ''Which day?'') \<and>
      is_goal_completed cm0 (full_context cm0 ''Which day?''))"
    using which_day_facts(3) by simp
  have f: "chat_completion failing_env ?m = Inl CompletionError"
    by (simp add: failing_env_def)
  have k: "chat_completion steady_env ?m = Inr (Some ''I would like a morning slot.'')"
    by (simp add: steady_env_def)
  have h: "conversation_history cm0 = [] \<and> cm_turn_count cm0 = 0"
    by (simp add: cm0_def ConversationManager_init_def)
  have a: "\<exists>r. generate_reply steady_env cm0 ''Am I speaking with Lucas?'' 1 = Inr (r, cm0)"
    using n generate_reply_frame [where agent_text = "''Am I speaking with Lucas?''" and cm = cm0
        and e = steady_env and conf = 1]
    by blast
  have b: "generate_reply failing_env cm0 ''Which day?'' 1 = Inr (CLARIFICATION, cm0)"
    using which_day_facts(1) v o cm0_prompt(2) f
      generate_reply_frame [where agent_text = "''Which day?''" and cm = cm0
        and e = failing_env and conf = 1 and prompt = "''You are Lucas.''"
        and err = CompletionError]
    by blast
  have "generate_reply steady_env cm0 ''Which day?'' 1 =
      Inr (if rejected (candidate_text (Some ''I would like a morning slot.'')) then CLARIFICATION
           else candidate_text (Some ''I would like a morning slot.''),
           cm0\<lparr>conversation_history :=
                 conversation_history cm0 @
                 [\<lparr>role = ''user'', content = ''Agent: '' @ ''Which day?''\<rparr>,
                  \<lparr>role = ''assistant'',
                   content = (if rejected (candidate_text (Some ''I would like a morning slot.''))
                              then CLARIFICATION
                              else candidate_text (Some ''I would like a morning slot.''))\<rparr>],
               cm_turn_count := cm_turn_count cm0 + 1\<rparr>)"
    using which_day_facts(1) v o cm0_prompt(1) k
      generate_reply_frame [where agent_text = "''Which day?''" and cm = cm0
        and e = steady_env and conf = 1 and prompt = "''You are Lucas.''"
        and c = "Some ''I would like a morning slot.''"]
    by blast
  then have c: "generate_reply steady_env cm0 ''Which day?'' 1 =
     Inr (''I would like a morning slot.'',
          cm0\<lparr>conversation_history :=
                [\<lparr>role = ''user'', content = ''Agent: Which day?''\<rparr>,
                 \<lparr>role = ''assistant'', content = ''I would like a morning slot.''\<rparr>],
              cm_turn_count := 1\<rparr>)"
    using h by (simp add: morning_slot_kept)
  show ?thesis
    using n a which_day_facts(1) cm0_prompt(2) f b k c by blast
qed

text \<open>
  C9 as stated fails: a refused candidate is answered with the fallback clarification, and
  that clarification is appended to the history with the counter incremented, so it is
  among the messages sent to the completion capability at the next turn.
\<close>

theorem rejected_candidate_recorded_counterexample:
  "chat_completion short_env (request_messages ''You are Lucas.'' cm0 ''Which day?'' 1) =
     Inr (Some ''  Okay. '') \<and>
   generate_reply short_env cm0 ''Which day?'' 1 =
     Inr (CLARIFICATION, record_exchange cm0 ''Which day?'' CLARIFICATION) \<and>
   conversation_history (record_exchange cm0 ''Which day?'' CLARIFICATION) =
     [\<lparr>role = ''user'', content = ''Agent: Which day?''\<rparr>,
      \<lparr>role = ''assistant'', content = CLARIFICATION\<rparr>] \<and>
   cm_turn_count (record_exchange cm0 ''Which day?'' CLARIFICATION) = 1 \<and>
   request_messages ''You are Lucas.'' (record_exchange cm0 ''Which day?'' CLARIFICATION)
       ''Friday?'' 1 =
     [\<lparr>role = ''system'', content = ''You are Lucas.''\<rparr>,
      \<lparr>role = ''user'', content = ''Agent: Which day?''\<rparr>,
      \<lparr>role = ''assistant'', content = CLARIFICATION\<rparr>,
      \<lparr>role = ''user'', content = ''Agent: Friday?''\<rparr>]"
proof -
  have a: "generate_reply short_env cm0 ''Which day?'' 1 =
     Inr (CLARIFICATION, record_exchange cm0 ''Which day?'' CLARIFICATION)"
    by (simp add: generate_reply_generative which_day_facts cm0_prompt short_env_reply)
  have b: "conversation_history cm0 = [] \<and> cm_turn_count cm0 = 0"
    by (simp add: cm0_def ConversationManager_init_def)
  have c: "\<not> (1 < LOW_CONFIDENCE)"
    by code_simp
  show ?thesis
    using a b c by (simp add: short_env_def record_exchange_def request_messages_def)
qed


end
